theory Spec2Isabelle
  imports Main "HOL-Library.Sublist"
begin

section \<open>The task list front end: \<open>src/App.js\<close>\<close>

text \<open>
  The component \<open>App\<close> keeps one piece of state, the array \<open>tasks\<close>, and four
  asynchronous operations on it: \<open>refreshTasks\<close>, \<open>updateTask\<close>, \<open>deleteTask\<close> and
  \<open>addTask\<close>. Each awaits one helper (\<open>getTasksAsync\<close>, \<open>updateTaskAsync\<close>,
  \<open>deleteTaskAsync\<close>, \<open>addTaskAsync\<close>) that makes one \<open>axios\<close> call, and then calls
  \<open>setTasks\<close>. The embedding makes the effects explicit: the requests issued, the lines
  written with \<open>console.log\<close>, the new value of \<open>tasks\<close>, and whether the operation's
  promise is rejected.
\<close>

subsection \<open>JavaScript values\<close>

text \<open>
  The values the program handles: what \<open>JSON\<close> decoding of a response body gives
  (\<open>null\<close>, booleans, numbers, strings, arrays, objects), \<open>undefined\<close> (a property
  that is not there) and the \<open>Date\<close> that \<open>addTaskAsync\<close> creates. Numbers are
  integers here (task ids are); \<open>NaN\<close> and fractions are outside the model. An object
  is its list of own properties, looked up by key.
\<close>

datatype jsval =
    JUndefined
  | JNull
  | JBool bool
  | JNum int
  | JStr string
  | JDate int
  | JArr "jsval list"
  | JObj "(string \<times> jsval) list"

text \<open>\<open>x === null || x === undefined\<close>: reading a property of such a value, or
  destructuring it, throws a \<open>TypeError\<close>.\<close>

fun nullish :: "jsval \<Rightarrow> bool" where
  "nullish JUndefined = True"
| "nullish JNull = True"
| "nullish _ = False"

text \<open>
  \<open>v.k\<close> for a \<open>v\<close> that is not nullish, and for the keys this program reads
  (\<open>task\<close>, \<open>description\<close>, \<open>id\<close>, \<open>is_complete\<close>, \<open>title\<close>, \<open>isComplete\<close>):
  the property of an object, \<open>undefined\<close> when the object has none, and \<open>undefined\<close>
  on a boolean, number, string, date or array, which have no property of these names.
\<close>

fun get_prop :: "jsval \<Rightarrow> string \<Rightarrow> jsval" where
  "get_prop (JObj kvs) k = (case map_of kvs k of None \<Rightarrow> JUndefined | Some v \<Rightarrow> v)"
| "get_prop _ k = JUndefined"

text \<open>The truth value of \<open>v\<close> in a condition (\<open>!v\<close>, \<open>v ? a : b\<close>).\<close>

fun truthy :: "jsval \<Rightarrow> bool" where
  "truthy JUndefined = False"
| "truthy JNull = False"
| "truthy (JBool b) = b"
| "truthy (JNum n) = (n \<noteq> 0)"
| "truthy (JStr s) = (s \<noteq> [])"
| "truthy _ = True"

text \<open>
  \<open>a === b\<close>. On \<open>undefined\<close>, \<open>null\<close>, booleans, numbers and strings it compares
  the values. Objects, arrays and dates are \<open>===\<close> only to themselves (the same
  reference); the model holds values, not references, and gives \<open>False\<close> there, which
  is what JavaScript gives for two values decoded from different responses.
\<close>

fun strict_eq :: "jsval \<Rightarrow> jsval \<Rightarrow> bool" where
  "strict_eq JUndefined JUndefined = True"
| "strict_eq JNull JNull = True"
| "strict_eq (JBool a) (JBool b) = (a = b)"
| "strict_eq (JNum a) (JNum b) = (a = b)"
| "strict_eq (JStr a) (JStr b) = (a = b)"
| "strict_eq _ _ = False"

subsection \<open>Errors, requests and the console\<close>

text \<open>
  A template literal, kept as its pieces: \<open>`error updating task ${id}`\<close> is
  \<open>[Lit ''error updating task '', Interp id]\<close>. A plain string literal is one \<open>Lit\<close>.
\<close>

datatype piece = Lit string | Interp jsval

text \<open>
  What can be thrown: \<open>new Error(message)\<close> of the helpers, the \<open>TypeError\<close> of the
  language (a property read or a destructuring of a nullish value, a call of something
  that is not a function), and whatever \<open>axios\<close> rejects with (network unreachable, a
  status that is not a success), kept as an opaque text.
\<close>

datatype js_error = Error "piece list" | TypeError | AxiosError string

text \<open>
  The remote calls, relative to \<open>kBaseUrl\<close>:
  \<^item> \<open>GET_tasks\<close> is \<open>axios.get(`${kBaseUrl}/tasks`)\<close>;
  \<^item> \<open>PATCH_task id endpoint\<close> is \<open>axios.patch(`${kBaseUrl}/tasks/${id}/${endpoint}`)\<close>;
  \<^item> \<open>DELETE_task id\<close> is \<open>axios.delete(`${kBaseUrl}/tasks/${id}`)\<close>;
  \<^item> \<open>POST_tasks body\<close> is \<open>axios.post(`${kBaseUrl}/tasks`, body)\<close>.
\<close>

datatype request =
    GET_tasks
  | PATCH_task jsval string
  | DELETE_task jsval
  | POST_tasks jsval

text \<open>
  The remote API is the environment: \<open>axios r\<close> is what awaiting the call \<open>r\<close> gives,
  \<open>Inl err\<close> when the promise is rejected with \<open>err\<close> and \<open>Inr d\<close> when it resolves
  to a response whose \<open>data\<close> is \<open>d\<close>.
\<close>

type_synonym axios = "request \<Rightarrow> js_error + jsval"

text \<open>\<open>console.log(err)\<close> and \<open>console.log(err.message)\<close>.\<close>

datatype log_entry = Log_err js_error | Log_message js_error

text \<open>
  What a helper does: the requests it issued, the lines it logged, and its result
  (\<open>Inl\<close> the error it throws, \<open>Inr\<close> the value it returns).
\<close>

type_synonym 'a helper = "request list \<times> log_entry list \<times> (js_error + 'a)"

subsection \<open>Tasks and the renaming transform\<close>

text \<open>
  A task as the component holds it: the object \<open>{ description, id, isComplete, title }\<close>
  that \<open>taskApiToJson\<close> builds. Every element of \<open>tasks\<close> is such an object: the state
  starts as \<open>[]\<close> and every \<open>setTasks\<close> stores results of \<open>taskApiToJson\<close> or
  elements of the previous state. The field \<open>id\<close> is written \<open>id'\<close>.
\<close>

record task =
  description :: jsval
  id' :: jsval
  isComplete :: jsval
  title :: jsval

text \<open>
  \<^verbatim>\<open>
  const taskApiToJson = task => {
    const { description, id, is_complete: isComplete, title } = task;
    return { description, id, isComplete, title };
  };
  \<close>
  Destructuring a nullish \<open>task\<close> throws.
\<close>

definition taskApiToJson :: "jsval \<Rightarrow> js_error + task" where
  "taskApiToJson task =
     (if nullish task then Inl TypeError
      else Inr \<lparr>description = get_prop task ''description'',
                id' = get_prop task ''id'',
                isComplete = get_prop task ''is_complete'',
                title = get_prop task ''title''\<rparr>)"

text \<open>
  Modelled from the spec: the direction internal to wire of the renaming transform.
  \<open>src/App.js\<close> has only \<open>taskApiToJson\<close> (wire to internal); the spec speaks of one
  bidirectional field-renaming transform, whose field table is \<open>id\<close>, \<open>title\<close>,
  \<open>description\<close> under the same names and the completion flag \<open>isComplete\<close> under
  the snake-case name \<open>is_complete\<close>.
\<close>

definition taskJsonToApi :: "task \<Rightarrow> jsval" where
  "taskJsonToApi t =
     JObj [(''description'', description t),
           (''id'', id' t),
           (''is_complete'', isComplete t),
           (''title'', title t)]"

text \<open>\<open>xs.map(f)\<close> for an \<open>f\<close> that may throw: the first throw ends the loop.\<close>

fun map_throwing :: "('a \<Rightarrow> js_error + 'b) \<Rightarrow> 'a list \<Rightarrow> js_error + 'b list" where
  "map_throwing f [] = Inr []"
| "map_throwing f (x # xs) =
     (case f x of
        Inl err \<Rightarrow> Inl err
      | Inr y \<Rightarrow> (case map_throwing f xs of Inl err \<Rightarrow> Inl err | Inr ys \<Rightarrow> Inr (y # ys)))"

subsection \<open>The helpers\<close>

text \<open>
  \<^verbatim>\<open>
  const getTasksAsync = async () => {
    try {
      const response = await axios.get(`${kBaseUrl}/tasks`);
      return response.data.map(taskApiToJson);
    } catch (err) {
      console.log(err);
      throw new Error('error fetching tasks');
    }
  };
  \<close>
  \<open>response.data.map\<close> is \<open>Array.prototype.map\<close> when the data is an array; on anything
  else the call throws a \<open>TypeError\<close> (no property \<open>map\<close>, or one that is not a
  function).
\<close>

definition response_data_map :: "jsval \<Rightarrow> js_error + task list" where
  "response_data_map d =
     (case d of JArr xs \<Rightarrow> map_throwing taskApiToJson xs | _ \<Rightarrow> Inl TypeError)"

definition getTasksAsync :: "axios \<Rightarrow> task list helper" where
  "getTasksAsync axios =
     (case (case axios GET_tasks of
              Inl err \<Rightarrow> Inl err
            | Inr d \<Rightarrow> response_data_map d) of
        Inr ts \<Rightarrow> ([GET_tasks], [], Inr ts)
      | Inl err \<Rightarrow> ([GET_tasks], [Log_err err], Inl (Error [Lit ''error fetching tasks''])))"

text \<open>
  \<^verbatim>\<open>
  const updateTaskAsync = async (id, markComplete) => {
    const endpoint = markComplete ? 'mark_complete' : 'mark_incomplete';
    try {
      const response = await axios.patch(`${kBaseUrl}/tasks/${id}/${endpoint}`);
      return taskApiToJson(response.data.task);
    } catch (err) {
      console.log(err);
      throw new Error(`error updating task ${id}`);
    }
  };
  \<close>
  \<open>response.data.task\<close> throws when the data is nullish.
\<close>

definition response_data_task :: "jsval \<Rightarrow> js_error + task" where
  "response_data_task d =
     (if nullish d then Inl TypeError else taskApiToJson (get_prop d ''task''))"

definition updateTaskAsync :: "axios \<Rightarrow> jsval \<Rightarrow> bool \<Rightarrow> task helper" where
  "updateTaskAsync axios i markComplete =
     (let endpoint = (if markComplete then ''mark_complete'' else ''mark_incomplete'') in
      case (case axios (PATCH_task i endpoint) of
              Inl err \<Rightarrow> Inl err
            | Inr d \<Rightarrow> response_data_task d) of
        Inr newTask \<Rightarrow> ([PATCH_task i endpoint], [], Inr newTask)
      | Inl err \<Rightarrow>
          ([PATCH_task i endpoint], [Log_err err],
           Inl (Error [Lit ''error updating task '', Interp i])))"

text \<open>
  \<^verbatim>\<open>
  const deleteTaskAsync = async id => {
    try {
      await axios.delete(`${kBaseUrl}/tasks/${id}`);
    } catch (err) {
      console.log(err);
      throw new Error(`error deleting task ${id}`);
    }
  };
  \<close>
  The response is not read.
\<close>

definition deleteTaskAsync :: "axios \<Rightarrow> jsval \<Rightarrow> unit helper" where
  "deleteTaskAsync axios i =
     (case axios (DELETE_task i) of
        Inr d \<Rightarrow> ([DELETE_task i], [], Inr ())
      | Inl err \<Rightarrow>
          ([DELETE_task i], [Log_err err],
           Inl (Error [Lit ''error deleting task '', Interp i])))"

text \<open>
  \<^verbatim>\<open>
  const addTaskAsync = async taskData => {
    const { title, isComplete } = taskData;
    const description = 'created in Task List Front End';
    const completedAt = isComplete ? new Date() : null;
    const body = { title, description, ['completed_at']: completedAt };
    try {
      const response = await axios.post(`${kBaseUrl}/tasks`, body);
      return taskApiToJson(response.data.task);
    } catch (err) {
      console.log(err);
      throw new Error('error creating task');
    }
  };
  \<close>
  \<open>now\<close> is the time \<open>new Date()\<close> reads. The destructuring of \<open>taskData\<close> stands
  before the \<open>try\<close>: on a nullish \<open>taskData\<close> the helper throws the \<open>TypeError\<close>
  itself, with no request and no log.
\<close>

definition addTask_body :: "int \<Rightarrow> jsval \<Rightarrow> jsval" where
  "addTask_body now taskData =
     (let title = get_prop taskData ''title'';
          isComplete = get_prop taskData ''isComplete'';
          description = JStr ''created in Task List Front End'';
          completedAt = (if truthy isComplete then JDate now else JNull)
      in JObj [(''title'', title), (''description'', description),
               (''completed_at'', completedAt)])"

definition addTaskAsync :: "axios \<Rightarrow> int \<Rightarrow> jsval \<Rightarrow> task helper" where
  "addTaskAsync axios now taskData =
     (if nullish taskData then ([], [], Inl TypeError)
      else
        let body = addTask_body now taskData in
        case (case axios (POST_tasks body) of
                Inl err \<Rightarrow> Inl err
              | Inr d \<Rightarrow> response_data_task d) of
          Inr t \<Rightarrow> ([POST_tasks body], [], Inr t)
        | Inl err \<Rightarrow>
            ([POST_tasks body], [Log_err err], Inl (Error [Lit ''error creating task''])))"

subsection \<open>The operations of the component\<close>

text \<open>
  What one operation does, from its call to the settlement of its promise, with no
  other operation in between (so the \<open>tasks\<close> its closure holds and the \<open>oldTasks\<close>
  its updater receives are the same array): the new value of the state \<open>tasks\<close>, the
  requests issued, the lines logged, and the error its promise is rejected with
  (\<open>None\<close> when it resolves).
\<close>

record outcome =
  tasks_state :: "task list"
  requests :: "request list"
  console :: "log_entry list"
  thrown :: "js_error option"

text \<open>
  \<^verbatim>\<open>
  const refreshTasks = async () => {
    try {
      const tasks = await getTasksAsync();
      setTasks(tasks);
    } catch (err) {
      console.log(err.message);
    }
  };
  \<close>
\<close>

definition refreshTasks :: "axios \<Rightarrow> task list \<Rightarrow> outcome" where
  "refreshTasks axios tasks =
     (case getTasksAsync axios of
        (rs, logs, Inr ts) \<Rightarrow>
          \<lparr>tasks_state = ts, requests = rs, console = logs, thrown = None\<rparr>
      | (rs, logs, Inl err) \<Rightarrow>
          \<lparr>tasks_state = tasks, requests = rs, console = logs @ [Log_message err],
           thrown = None\<rparr>)"

text \<open>
  \<^verbatim>\<open>
  const updateTask = async id => {
    const task = tasks.find(task => task.id === id);
    if (!task) { return; }
    try {
      const newTask = await updateTaskAsync(id, !task.isComplete);
      setTasks(oldTasks => {
        return oldTasks.map(task => {
          if (task.id === newTask.id) {
            return newTask;
          } else {
            return task;
          }
        });
      });
    } catch (err) {
      console.log(err.message);
    }
  };
  \<close>
\<close>

definition updateTask_updater :: "task \<Rightarrow> task list \<Rightarrow> task list" where
  "updateTask_updater newTask oldTasks =
     map (\<lambda>task. if strict_eq (id' task) (id' newTask) then newTask else task) oldTasks"

definition updateTask :: "axios \<Rightarrow> task list \<Rightarrow> jsval \<Rightarrow> outcome" where
  "updateTask axios tasks i =
     (case find (\<lambda>task. strict_eq (id' task) i) tasks of
        None \<Rightarrow> \<lparr>tasks_state = tasks, requests = [], console = [], thrown = None\<rparr>
      | Some task \<Rightarrow>
          (case updateTaskAsync axios i (\<not> truthy (isComplete task)) of
             (rs, logs, Inr newTask) \<Rightarrow>
               \<lparr>tasks_state = updateTask_updater newTask tasks, requests = rs,
                console = logs, thrown = None\<rparr>
           | (rs, logs, Inl err) \<Rightarrow>
               \<lparr>tasks_state = tasks, requests = rs, console = logs @ [Log_message err],
                thrown = None\<rparr>))"

text \<open>
  \<^verbatim>\<open>
  const deleteTask = async id => {
    try {
      await deleteTaskAsync(id);
      setTasks(oldTasks => {
        return oldTasks.filter(task => task.id !== id);
      });
    } catch (err) {
      console.log(err.message);
    }
  };
  \<close>
\<close>

definition deleteTask_updater :: "jsval \<Rightarrow> task list \<Rightarrow> task list" where
  "deleteTask_updater i oldTasks = filter (\<lambda>task. \<not> strict_eq (id' task) i) oldTasks"

definition deleteTask :: "axios \<Rightarrow> task list \<Rightarrow> jsval \<Rightarrow> outcome" where
  "deleteTask axios tasks i =
     (case deleteTaskAsync axios i of
        (rs, logs, Inr u) \<Rightarrow>
          \<lparr>tasks_state = deleteTask_updater i tasks, requests = rs, console = logs,
           thrown = None\<rparr>
      | (rs, logs, Inl err) \<Rightarrow>
          \<lparr>tasks_state = tasks, requests = rs, console = logs @ [Log_message err],
           thrown = None\<rparr>)"

text \<open>
  \<^verbatim>\<open>
  const addTask = async taskData => {
    try {
      const task = await addTaskAsync(taskData);
      setTasks(oldTasks => [ ...oldTasks, task ]);
    } catch (err) {
      console.log(err.message);
    }
  };
  \<close>
\<close>

definition addTask_updater :: "task \<Rightarrow> task list \<Rightarrow> task list" where
  "addTask_updater task oldTasks = oldTasks @ [task]"

definition addTask :: "axios \<Rightarrow> int \<Rightarrow> task list \<Rightarrow> jsval \<Rightarrow> outcome" where
  "addTask axios now tasks taskData =
     (case addTaskAsync axios now taskData of
        (rs, logs, Inr task) \<Rightarrow>
          \<lparr>tasks_state = addTask_updater task tasks, requests = rs, console = logs,
           thrown = None\<rparr>
      | (rs, logs, Inl err) \<Rightarrow>
          \<lparr>tasks_state = tasks, requests = rs, console = logs @ [Log_message err],
           thrown = None\<rparr>)"

subsection \<open>Example data\<close>

text \<open>
  The records, tasks and remote APIs of the examples below: a remote API that answers
  every call with the same response data, and one that rejects every call.
\<close>

abbreviation responds :: "jsval \<Rightarrow> axios" where
  "responds d \<equiv> (\<lambda>r. Inr d)"

abbreviation rejects :: "js_error \<Rightarrow> axios" where
  "rejects err \<equiv> (\<lambda>r. Inl err)"

abbreviation wire_A :: "bool \<Rightarrow> jsval" where
  "wire_A c \<equiv> JObj [(''id'', JNum 1), (''title'', JStr ''A''), (''description'', JStr []),
                     (''is_complete'', JBool c)]"

abbreviation wire_B :: jsval where
  "wire_B \<equiv> JObj [(''id'', JNum 2), (''title'', JStr ''B''),
                   (''description'', JStr ''created in Task List Front End''),
                   (''is_complete'', JBool True)]"

abbreviation task_A :: "bool \<Rightarrow> task" where
  "task_A c \<equiv> \<lparr>description = JStr [], id' = JNum 1, isComplete = JBool c,
                 title = JStr ''A''\<rparr>"

abbreviation task_B :: task where
  "task_B \<equiv> \<lparr>description = JStr ''created in Task List Front End'', id' = JNum 2,
               isComplete = JBool True, title = JStr ''B''\<rparr>"

abbreviation task_5 :: task where
  "task_5 \<equiv> \<lparr>description = JStr ''five'', id' = JNum 5, isComplete = JBool False,
               title = JStr ''E''\<rparr>"

abbreviation draft_B :: jsval where
  "draft_B \<equiv> JObj [(''title'', JStr ''B''), (''isComplete'', JBool True)]"

section \<open>Properties\<close>

subsection \<open>Auxiliary facts\<close>

lemma strict_eq_imp_eq: "strict_eq a b \<Longrightarrow> a = b"
  by (cases a; cases b) auto


lemma map_throwing_Inr_iff: "map_throwing f xs = Inr ys \<longleftrightarrow> map f xs = map Inr ys"
proof (induction xs arbitrary: ys)
  case Nil
  then show ?case by auto
next
  case (Cons x xs)
  show ?case
  proof (cases "f x")
    case (Inl e)
    then show ?thesis by (cases ys) auto
  next
    case (Inr y)
    then show ?thesis using Cons.IH by (cases ys; cases "map_throwing f xs") auto
  qed
qed

lemma map_throwing_total:
  "\<forall>x\<in>set xs. \<exists>y. f x = Inr y \<Longrightarrow> \<exists>ys. map_throwing f xs = Inr ys"
  by (induction xs) (auto split: sum.splits)

lemma taskApiToJson_defined: "\<not> nullish r \<Longrightarrow> \<exists>t. taskApiToJson r = Inr t"
  by (simp add: taskApiToJson_def)


lemma updateTask_cases:
  "tasks_state (updateTask axios tasks i) = tasks
     \<or> (\<exists>newTask. tasks_state (updateTask axios tasks i) = updateTask_updater newTask tasks)"
  by (auto simp: updateTask_def split: option.splits prod.splits sum.splits)

lemma updateTask_updater_ids: "map id' (updateTask_updater newTask tasks) = map id' tasks"
  by (induction tasks) (auto simp: updateTask_updater_def dest: strict_eq_imp_eq)

lemma updateTask_updater_in_place:
  "list_all2 (\<lambda>old new. new = old \<or> (new = newTask \<and> strict_eq (id' old) (id' newTask)))
     tasks (updateTask_updater newTask tasks)"
  by (induction tasks) (auto simp: updateTask_updater_def)

subsection \<open>Refresh\<close>

text \<open>
  C1. Whatever the local collection was, a refresh whose request resolves to an array
  of records (none of them \<open>null\<close> or \<open>undefined\<close>) replaces the whole collection by
  that array with every record passed through \<open>taskApiToJson\<close>, in the server's order:
  element by element the new state is the transform of the server's record, and nothing
  of the prior state is kept. One \<open>GET\<close> is issued, nothing is logged, the promise
  resolves.
\<close>

theorem refreshTasks_overwrites:
  assumes "axios GET_tasks = Inr (JArr recs)" and "\<forall>r\<in>set recs. \<not> nullish r"
  shows "map Inr (tasks_state (refreshTasks axios tasks)) = map taskApiToJson recs
     \<and> requests (refreshTasks axios tasks) = [GET_tasks]
     \<and> console (refreshTasks axios tasks) = []
     \<and> thrown (refreshTasks axios tasks) = None"
proof -
  from assms(2) have "\<forall>r\<in>set recs. \<exists>t. taskApiToJson r = Inr t"
    by (simp add: taskApiToJson_defined)
  then obtain ts where ts: "map_throwing taskApiToJson recs = Inr ts"
    using map_throwing_total by blast
  then have "map taskApiToJson recs = map Inr ts"
    by (simp add: map_throwing_Inr_iff)
  moreover have "refreshTasks axios tasks =
      \<lparr>tasks_state = ts, requests = [GET_tasks], console = [], thrown = None\<rparr>"
    using assms(1) ts by (simp add: refreshTasks_def getTasksAsync_def response_data_map_def)
  ultimately show ?thesis by simp
qed

text \<open>The server holds the tasks 1 and 2, the client a stale task 5: after the refresh
  the client holds 1 and 2.\<close>

theorem refreshTasks_overwrites_witness:
  "\<not> nullish (wire_A False) \<and> \<not> nullish wire_B
   \<and> tasks_state (refreshTasks (responds (JArr [wire_A False, wire_B])) [task_5])
       = [task_A False, task_B]"
  using refreshTasks_overwrites
    [where axios = "responds (JArr [wire_A False, wire_B])"
       and recs = "[wire_A False, wire_B]" and tasks = "[task_5]"]
  by (auto simp: taskApiToJson_def map_eq_Cons_conv)

subsection \<open>Faults\<close>

text \<open>
  C2. For each of the four operations and every error \<open>e\<close> its remote call is rejected
  with: the local collection is left as it was, the raw error and then the simplified
  message are logged, and the operation's promise resolves. No operation ever rejects
  its promise, whatever the remote API does, and whenever an operation logs anything
  (a rejected call or a response it cannot read) the collection is left as it was.
\<close>

theorem faults_contained:
  "(axios GET_tasks = Inl e \<longrightarrow>
      refreshTasks axios tasks =
        \<lparr>tasks_state = tasks, requests = [GET_tasks],
         console = [Log_err e, Log_message (Error [Lit ''error fetching tasks''])],
         thrown = None\<rparr>)
   \<and> (find (\<lambda>task. strict_eq (id' task) i) tasks = Some task
        \<and> axios (PATCH_task i (if truthy (isComplete task) then ''mark_incomplete''
                                else ''mark_complete'')) = Inl e \<longrightarrow>
      updateTask axios tasks i =
        \<lparr>tasks_state = tasks,
         requests = [PATCH_task i (if truthy (isComplete task) then ''mark_incomplete''
                                   else ''mark_complete'')],
         console = [Log_err e, Log_message (Error [Lit ''error updating task '', Interp i])],
         thrown = None\<rparr>)
   \<and> (axios (DELETE_task i) = Inl e \<longrightarrow>
      deleteTask axios tasks i =
        \<lparr>tasks_state = tasks, requests = [DELETE_task i],
         console = [Log_err e, Log_message (Error [Lit ''error deleting task '', Interp i])],
         thrown = None\<rparr>)
   \<and> (\<not> nullish taskData \<and> axios (POST_tasks (addTask_body now taskData)) = Inl e \<longrightarrow>
      addTask axios now tasks taskData =
        \<lparr>tasks_state = tasks, requests = [POST_tasks (addTask_body now taskData)],
         console = [Log_err e, Log_message (Error [Lit ''error creating task''])],
         thrown = None\<rparr>)
   \<and> thrown (refreshTasks axios tasks) = None
   \<and> thrown (updateTask axios tasks i) = None
   \<and> thrown (deleteTask axios tasks i) = None
   \<and> thrown (addTask axios now tasks taskData) = None
   \<and> (console (refreshTasks axios tasks) \<noteq> [] \<longrightarrow>
        tasks_state (refreshTasks axios tasks) = tasks)
   \<and> (console (updateTask axios tasks i) \<noteq> [] \<longrightarrow>
        tasks_state (updateTask axios tasks i) = tasks)
   \<and> (console (deleteTask axios tasks i) \<noteq> [] \<longrightarrow>
        tasks_state (deleteTask axios tasks i) = tasks)
   \<and> (console (addTask axios now tasks taskData) \<noteq> [] \<longrightarrow>
        tasks_state (addTask axios now tasks taskData) = tasks)"
proof -
  have rejected:
    "axios GET_tasks = Inl e \<longrightarrow>
      refreshTasks axios tasks =
        \<lparr>tasks_state = tasks, requests = [GET_tasks],
         console = [Log_err e, Log_message (Error [Lit ''error fetching tasks''])],
         thrown = None\<rparr>"
    "find (\<lambda>task. strict_eq (id' task) i) tasks = Some task
        \<and> axios (PATCH_task i (if truthy (isComplete task) then ''mark_incomplete''
                                else ''mark_complete'')) = Inl e \<longrightarrow>
      updateTask axios tasks i =
        \<lparr>tasks_state = tasks,
         requests = [PATCH_task i (if truthy (isComplete task) then ''mark_incomplete''
                                   else ''mark_complete'')],
         console = [Log_err e, Log_message (Error [Lit ''error updating task '', Interp i])],
         thrown = None\<rparr>"
    "axios (DELETE_task i) = Inl e \<longrightarrow>
      deleteTask axios tasks i =
        \<lparr>tasks_state = tasks, requests = [DELETE_task i],
         console = [Log_err e, Log_message (Error [Lit ''error deleting task '', Interp i])],
         thrown = None\<rparr>"
    "\<not> nullish taskData \<and> axios (POST_tasks (addTask_body now taskData)) = Inl e \<longrightarrow>
      addTask axios now tasks taskData =
        \<lparr>tasks_state = tasks, requests = [POST_tasks (addTask_body now taskData)],
         console = [Log_err e, Log_message (Error [Lit ''error creating task''])],
         thrown = None\<rparr>"
    by (simp_all add: refreshTasks_def getTasksAsync_def updateTask_def updateTaskAsync_def
        deleteTask_def deleteTaskAsync_def addTask_def addTaskAsync_def)
  have resolves:
    "thrown (refreshTasks axios tasks) = None"
    "thrown (updateTask axios tasks i) = None"
    "thrown (deleteTask axios tasks i) = None"
    "thrown (addTask axios now tasks taskData) = None"
    by (simp_all add: refreshTasks_def updateTask_def deleteTask_def addTask_def
        split: option.splits prod.splits sum.splits)
  have logged:
    "console (refreshTasks axios tasks) \<noteq> [] \<longrightarrow>
        tasks_state (refreshTasks axios tasks) = tasks"
    "console (updateTask axios tasks i) \<noteq> [] \<longrightarrow>
        tasks_state (updateTask axios tasks i) = tasks"
    "console (deleteTask axios tasks i) \<noteq> [] \<longrightarrow>
        tasks_state (deleteTask axios tasks i) = tasks"
    "console (addTask axios now tasks taskData) \<noteq> [] \<longrightarrow>
        tasks_state (addTask axios now tasks taskData) = tasks"
    by (auto simp: refreshTasks_def getTasksAsync_def updateTask_def updateTaskAsync_def
        deleteTask_def deleteTaskAsync_def addTask_def addTaskAsync_def Let_def
        split: option.splits prod.splits sum.splits if_splits)
  from rejected resolves logged show ?thesis by blast
qed

text \<open>The remote API is unreachable: \<open>remove(5)\<close>, and the other three operations,
  leave the collection that holds task 5 as it was.\<close>

theorem faults_contained_witness:
  "find (\<lambda>task. strict_eq (id' task) (JNum 5)) [task_5] = Some task_5
   \<and> \<not> nullish draft_B
   \<and> refreshTasks (rejects (AxiosError ''Network Error'')) [task_5] =
        \<lparr>tasks_state = [task_5], requests = [GET_tasks],
         console = [Log_err (AxiosError ''Network Error''),
                    Log_message (Error [Lit ''error fetching tasks''])],
         thrown = None\<rparr>
   \<and> updateTask (rejects (AxiosError ''Network Error'')) [task_5] (JNum 5) =
        \<lparr>tasks_state = [task_5], requests = [PATCH_task (JNum 5) ''mark_complete''],
         console = [Log_err (AxiosError ''Network Error''),
                    Log_message (Error [Lit ''error updating task '', Interp (JNum 5)])],
         thrown = None\<rparr>
   \<and> deleteTask (rejects (AxiosError ''Network Error'')) [task_5] (JNum 5) =
        \<lparr>tasks_state = [task_5], requests = [DELETE_task (JNum 5)],
         console = [Log_err (AxiosError ''Network Error''),
                    Log_message (Error [Lit ''error deleting task '', Interp (JNum 5)])],
         thrown = None\<rparr>
   \<and> tasks_state (addTask (rejects (AxiosError ''Network Error'')) 0 [task_5] draft_B)
        = [task_5]"
  using faults_contained
    [where axios = "rejects (AxiosError ''Network Error'')" and e = "AxiosError ''Network Error''"
       and tasks = "[task_5]" and i = "JNum 5" and task = task_5 and taskData = draft_B
       and now = 0]
  by simp

subsection \<open>Toggling completion\<close>




text \<open>
  C4. When no task of the collection has the given id, \<open>updateTask\<close> returns at once:
  the collection is unchanged, no request is issued, nothing is logged.
\<close>

theorem updateTask_absent_noop:
  assumes "\<forall>t\<in>set tasks. \<not> strict_eq (id' t) i"
  shows "updateTask axios tasks i =
           \<lparr>tasks_state = tasks, requests = [], console = [], thrown = None\<rparr>"
proof -
  have "find (\<lambda>task. strict_eq (id' task) i) tasks = None"
    using assms by (simp add: find_None_iff)
  then show ?thesis by (simp add: updateTask_def)
qed

theorem updateTask_absent_noop_witness:
  "\<not> strict_eq (id' (task_A False)) (JNum 2) \<and> \<not> strict_eq (id' task_5) (JNum 2)
   \<and> updateTask (responds (JObj [(''task'', wire_B)])) [task_A False, task_5] (JNum 2) =
       \<lparr>tasks_state = [task_A False, task_5], requests = [], console = [], thrown = None\<rparr>"
  using updateTask_absent_noop
    [where tasks = "[task_A False, task_5]" and i = "JNum 2"
       and axios = "responds (JObj [(''task'', wire_B)])"]
  by simp

text \<open>
  C5. For a task present in the collection (\<open>find\<close> gives the first one with the id),
  \<open>updateTask\<close> issues exactly one request, to the endpoint for the opposite of the
  \<open>isComplete\<close> it read: \<open>mark_complete\<close> when the target \<open>!task.isComplete\<close> is true,
  \<open>mark_incomplete\<close> when it is false. The helper picks the endpoint by its boolean
  argument, and the two requests differ.
\<close>

theorem updateTask_requests_opposite:
  assumes "find (\<lambda>task. strict_eq (id' task) i) tasks = Some task"
  shows "requests (updateTask axios tasks i) =
           [PATCH_task i (if \<not> truthy (isComplete task) then ''mark_complete''
                          else ''mark_incomplete'')]
     \<and> fst (updateTaskAsync axios i True) = [PATCH_task i ''mark_complete'']
     \<and> fst (updateTaskAsync axios i False) = [PATCH_task i ''mark_incomplete'']
     \<and> PATCH_task i ''mark_complete'' \<noteq> PATCH_task i ''mark_incomplete''"
  using assms
  by (simp add: updateTask_def updateTaskAsync_def Let_def split: sum.splits)

theorem updateTask_requests_opposite_witness:
  "find (\<lambda>task. strict_eq (id' task) (JNum 1)) [task_A False] = Some (task_A False)
   \<and> requests (updateTask (responds (JObj [(''task'', wire_A True)])) [task_A False] (JNum 1))
       = [PATCH_task (JNum 1) ''mark_complete'']
   \<and> find (\<lambda>task. strict_eq (id' task) (JNum 1)) [task_A True] = Some (task_A True)
   \<and> requests (updateTask (responds (JObj [(''task'', wire_A False)])) [task_A True] (JNum 1))
       = [PATCH_task (JNum 1) ''mark_incomplete'']"
  using updateTask_requests_opposite
    [where axios = "responds (JObj [(''task'', wire_A True)])" and tasks = "[task_A False]"
       and i = "JNum 1" and task = "task_A False"]
    updateTask_requests_opposite
    [where axios = "responds (JObj [(''task'', wire_A False)])" and tasks = "[task_A True]"
       and i = "JNum 1" and task = "task_A True"]
  by simp

subsection \<open>Removing\<close>

text \<open>
  C6. When the remote delete resolves, the new collection is the old one without the
  tasks whose id is \<open>===\<close> the given id: no task with that id is left, whether one was
  there or not; when none was there the collection is unchanged; the promise resolves
  and nothing is logged. Removing the same id again changes nothing more.
\<close>

theorem deleteTask_removes:
  assumes "axios (DELETE_task i) = Inr d"
  shows "(\<forall>t\<in>set (tasks_state (deleteTask axios tasks i)). \<not> strict_eq (id' t) i)
     \<and> tasks_state (deleteTask axios tasks i) = filter (\<lambda>t. \<not> strict_eq (id' t) i) tasks
     \<and> ((\<forall>t\<in>set tasks. \<not> strict_eq (id' t) i) \<longrightarrow>
          tasks_state (deleteTask axios tasks i) = tasks)
     \<and> tasks_state (deleteTask axios (tasks_state (deleteTask axios tasks i)) i)
          = tasks_state (deleteTask axios tasks i)
     \<and> thrown (deleteTask axios tasks i) = None
     \<and> console (deleteTask axios tasks i) = []"
  using assms
  by (simp add: deleteTask_def deleteTaskAsync_def deleteTask_updater_def)

text \<open>Removing task 5 from the tasks 1, 5, 2 leaves 1, 2; removing the absent 9 leaves
  all three.\<close>

theorem deleteTask_removes_witness:
  "tasks_state (deleteTask (responds JNull) [task_A False, task_5, task_B] (JNum 5))
     = [task_A False, task_B]
   \<and> tasks_state (deleteTask (responds JNull) [task_A False, task_5, task_B] (JNum 9))
     = [task_A False, task_5, task_B]
   \<and> thrown (deleteTask (responds JNull) [task_A False, task_5, task_B] (JNum 9)) = None"
  using deleteTask_removes
    [where axios = "responds JNull" and i = "JNum 5" and d = JNull
       and tasks = "[task_A False, task_5, task_B]"]
    deleteTask_removes
    [where axios = "responds JNull" and i = "JNum 9" and d = JNull
       and tasks = "[task_A False, task_5, task_B]"]
  by simp

subsection \<open>Adding\<close>

text \<open>
  C7. When the remote create resolves to a response whose \<open>data.task\<close> is a record, the
  new collection is the prior one with exactly one task appended at the end: the
  returned record after the renaming transform, whose id is the one the server sent.
\<close>

theorem addTask_appends:
  assumes "\<not> nullish taskData"
    and "axios (POST_tasks (addTask_body now taskData)) = Inr d"
    and "\<not> nullish d" and "\<not> nullish (get_prop d ''task'')"
  shows "\<exists>t. taskApiToJson (get_prop d ''task'') = Inr t
          \<and> tasks_state (addTask axios now tasks taskData) = tasks @ [t]
          \<and> id' t = get_prop (get_prop d ''task'') ''id''"
  using assms
  by (simp add: addTask_def addTaskAsync_def response_data_task_def taskApiToJson_def
      addTask_updater_def)

text \<open>Adding the draft B to the collection that holds task 1; the server returns
  task 2.\<close>

theorem addTask_appends_witness:
  "\<not> nullish draft_B \<and> \<not> nullish (JObj [(''task'', wire_B)])
   \<and> \<not> nullish (get_prop (JObj [(''task'', wire_B)]) ''task'')
   \<and> tasks_state (addTask (responds (JObj [(''task'', wire_B)])) 0 [task_A False] draft_B)
       = [task_A False, task_B]"
  using addTask_appends
    [where axios = "responds (JObj [(''task'', wire_B)])" and taskData = draft_B
       and now = 0 and d = "JObj [(''task'', wire_B)]" and tasks = "[task_A False]"]
  by (auto simp: taskApiToJson_def)

text \<open>
  C8. For a draft that is an object, \<open>addTask\<close> issues one \<open>POST\<close> whose body has the
  draft's \<open>title\<close>, the fixed \<open>description\<close> \<open>created in Task List Front End\<close>, and
  \<open>completed_at\<close>: the current time when the draft's \<open>isComplete\<close> is true (truthy),
  and otherwise \<open>null\<close>, no time.
\<close>

theorem addTask_body_sent:
  "requests (addTask axios now tasks (JObj kvs)) =
     [POST_tasks (JObj [(''title'', get_prop (JObj kvs) ''title''),
                        (''description'', JStr ''created in Task List Front End''),
                        (''completed_at'',
                           if truthy (get_prop (JObj kvs) ''isComplete'') then JDate now
                           else JNull)])]
   \<and> addTask_body now (JObj [(''title'', t), (''isComplete'', JBool b)]) =
       JObj [(''title'', t),
             (''description'', JStr ''created in Task List Front End''),
             (''completed_at'', if b then JDate now else JNull)]"
  by (simp add: addTask_def addTaskAsync_def addTask_body_def Let_def split: sum.splits)

subsection \<open>Order\<close>

text \<open>
  C9, for the three operations that keep tasks. Whatever the remote API answers,
  \<open>addTask\<close> leaves the collection as it was or appends one task at its end;
  \<open>updateTask\<close> keeps every position (each task of the result is the task that was
  there, or a record of the same id in its place), so the sequence of ids is the same;
  \<open>deleteTask\<close> yields a subsequence of the collection, the survivors in their order.
\<close>

theorem operations_keep_order:
  "(tasks_state (addTask axios now tasks taskData) = tasks
      \<or> (\<exists>t. tasks_state (addTask axios now tasks taskData) = tasks @ [t]))
   \<and> list_all2 (\<lambda>old new. new = old \<or> strict_eq (id' old) (id' new))
        tasks (tasks_state (updateTask axios tasks i))
   \<and> map id' (tasks_state (updateTask axios tasks i)) = map id' tasks
   \<and> subseq (tasks_state (deleteTask axios tasks i)) tasks"
proof -
  have add: "tasks_state (addTask axios now tasks taskData) = tasks
      \<or> (\<exists>t. tasks_state (addTask axios now tasks taskData) = tasks @ [t])"
    by (cases "addTaskAsync axios now taskData")
       (auto simp: addTask_def addTask_updater_def split: sum.splits)
  have same: "list_all2 (\<lambda>old new. new = old \<or> strict_eq (id' old) (id' new)) tasks tasks"
    by (simp add: list_all2_same)
  have inpl: "list_all2 (\<lambda>old new. new = old \<or> strict_eq (id' old) (id' new))
        tasks (updateTask_updater newTask tasks)" for newTask
    by (rule list_all2_mono [OF updateTask_updater_in_place]) auto
  have upd1: "list_all2 (\<lambda>old new. new = old \<or> strict_eq (id' old) (id' new))
        tasks (tasks_state (updateTask axios tasks i))"
    using updateTask_cases [of axios tasks i] same inpl by auto
  have upd2: "map id' (tasks_state (updateTask axios tasks i)) = map id' tasks"
    using updateTask_cases [of axios tasks i] updateTask_updater_ids by auto
  have del: "subseq (tasks_state (deleteTask axios tasks i)) tasks"
    by (cases "deleteTaskAsync axios i")
       (auto simp: deleteTask_def deleteTask_updater_def split: sum.splits)
  from add upd1 upd2 del show ?thesis by blast
qed

text \<open>
  C9 for every operation fails: \<open>refreshTasks\<close> stores the server's array in the
  server's order. The client holds the tasks 1, 2 and the server answers with the
  records 2, 1: both tasks remain, in the other order.
\<close>

theorem refreshTasks_reorders_counterexample:
  "refreshTasks (responds (JArr [wire_B, wire_A False])) [task_A False, task_B]
     = \<lparr>tasks_state = [task_B, task_A False], requests = [GET_tasks], console = [],
        thrown = None\<rparr>
   \<and> set (tasks_state (refreshTasks (responds (JArr [wire_B, wire_A False]))
             [task_A False, task_B])) = set [task_A False, task_B]
   \<and> \<not> subseq [task_A False, task_B]
         (tasks_state (refreshTasks (responds (JArr [wire_B, wire_A False]))
            [task_A False, task_B]))"
proof -
  have out: "refreshTasks (responds (JArr [wire_B, wire_A False])) [task_A False, task_B]
     = \<lparr>tasks_state = [task_B, task_A False], requests = [GET_tasks], console = [],
        thrown = None\<rparr>"
    by (simp add: refreshTasks_def getTasksAsync_def response_data_map_def taskApiToJson_def)
  show ?thesis
    unfolding out by (auto simp: subseq_Cons2_iff)
qed

subsection \<open>The renaming transform\<close>

text \<open>
  C10. For a wire record (an object), \<open>taskApiToJson\<close> keeps \<open>id\<close>, \<open>title\<close> and
  \<open>description\<close> and gives \<open>isComplete\<close> the value of the wire field \<open>is_complete\<close>.
  Going back through \<open>taskJsonToApi\<close> gives a wire record with the same \<open>id\<close>, \<open>title\<close>,
  \<open>description\<close> and \<open>is_complete\<close>, and transforming that again gives the same task.
\<close>

theorem renaming_round_trip:
  "\<exists>t. taskApiToJson (JObj kvs) = Inr t
     \<and> id' t = get_prop (JObj kvs) ''id''
     \<and> title t = get_prop (JObj kvs) ''title''
     \<and> description t = get_prop (JObj kvs) ''description''
     \<and> isComplete t = get_prop (JObj kvs) ''is_complete''
     \<and> get_prop (taskJsonToApi t) ''id'' = get_prop (JObj kvs) ''id''
     \<and> get_prop (taskJsonToApi t) ''title'' = get_prop (JObj kvs) ''title''
     \<and> get_prop (taskJsonToApi t) ''description'' = get_prop (JObj kvs) ''description''
     \<and> get_prop (taskJsonToApi t) ''is_complete'' = get_prop (JObj kvs) ''is_complete''
     \<and> taskApiToJson (taskJsonToApi t) = Inr t"
  by (simp add: taskApiToJson_def taskJsonToApi_def)

end
